theory Spec2Isabelle
  imports Main "HOL-Library.Word" "HOL-Library.Signed_Division"
begin

unbundle bit_operations_syntax

section \<open>Declarations of lmips.h and lmips_opcodes.h\<close>

text \<open>
  Modelled from the spec: the two headers included by \<^verbatim>\<open>lmips.c\<close> (the struct
  \<^verbatim>\<open>LMips\<close>, the enum \<^verbatim>\<open>ExecutionResult\<close>, the register names and the opcode
  constants) are not part of the sources at hand. The processor state follows section 3 of
  the specification: 32 registers, each a signed 32-bit integer (\<^verbatim>\<open>int32_t\<close>), the
  32-bit \<^verbatim>\<open>hi\<close> and \<^verbatim>\<open>lo\<close>, a 32-bit unsigned instruction pointer, the halt flag
  and a borrowed program buffer. A 32-bit machine integer is a \<open>32 word\<close>; whether it is read
  as signed (\<open>sint\<close>, \<open><s\<close>) or unsigned (\<open>unat\<close>, \<open><\<close>) is decided by the C types at each
  use. The program pointer is \<open>None\<close> for \<^verbatim>\<open>NULL\<close> and otherwise the bytes of the
  buffer it points to.
\<close>

datatype ExecutionResult = EXEC_SUCCESS | EXEC_FAILURE | EXEC_EXCP_INT_OVERFLOW

record LMips =
  regs :: "32 word list"
  hi :: "32 word"
  lo :: "32 word"
  ip :: "32 word"
  stop :: bool
  program :: "8 word list option"

text \<open>
  Modelled from the spec: the register file has 32 entries, the stack pointer is register
  29, the return address register 31 and the system-call selector register 2.
\<close>

definition REG_COUNT :: nat where "REG_COUNT = 32"
definition reg_sp :: nat where "reg_sp = 29"
definition reg_ra :: nat where "reg_ra = 31"
definition reg_v0 :: nat where "reg_v0 = 2"

text \<open>
  Modelled from the spec: the opcode and function-code constants of
  \<^verbatim>\<open>lmips_opcodes.h\<close> carry the standard MIPS32 encodings, which the byte sequence
  of the end-to-end scenario of the specification uses (\<^verbatim>\<open>0x20\<close> in the top six bits
  for ADDI, function code \<^verbatim>\<open>0x20\<close> for ADD and \<^verbatim>\<open>0x0C\<close> for SYSCALL under
  opcode 0). The theorems below depend only on the constants being pairwise distinct.
\<close>

definition OP_SPECIAL :: "8 word" where "OP_SPECIAL = 0x00"
definition OP_J :: "8 word" where "OP_J = 0x02"
definition OP_JAL :: "8 word" where "OP_JAL = 0x03"
definition OP_BEQ :: "8 word" where "OP_BEQ = 0x04"
definition OP_BNE :: "8 word" where "OP_BNE = 0x05"
definition OP_BLEZ :: "8 word" where "OP_BLEZ = 0x06"
definition OP_BGTZ :: "8 word" where "OP_BGTZ = 0x07"
definition OP_ADDI :: "8 word" where "OP_ADDI = 0x08"
definition OP_ADDIU :: "8 word" where "OP_ADDIU = 0x09"
definition OP_SLTI :: "8 word" where "OP_SLTI = 0x0A"
definition OP_SLTIU :: "8 word" where "OP_SLTIU = 0x0B"
definition OP_ANDI :: "8 word" where "OP_ANDI = 0x0C"
definition OP_ORI :: "8 word" where "OP_ORI = 0x0D"
definition OP_XORI :: "8 word" where "OP_XORI = 0x0E"

definition SPE_SLL :: "8 word" where "SPE_SLL = 0x00"
definition SPE_SRL :: "8 word" where "SPE_SRL = 0x02"
definition SPE_SRA :: "8 word" where "SPE_SRA = 0x03"
definition SPE_SLLV :: "8 word" where "SPE_SLLV = 0x04"
definition SPE_SRLV :: "8 word" where "SPE_SRLV = 0x06"
definition SPE_SRAV :: "8 word" where "SPE_SRAV = 0x07"
definition SPE_JR :: "8 word" where "SPE_JR = 0x08"
definition SPE_JALR :: "8 word" where "SPE_JALR = 0x09"
definition SPE_SYSCALL :: "8 word" where "SPE_SYSCALL = 0x0C"
definition SPE_MFHI :: "8 word" where "SPE_MFHI = 0x10"
definition SPE_MTHI :: "8 word" where "SPE_MTHI = 0x11"
definition SPE_MFLO :: "8 word" where "SPE_MFLO = 0x12"
definition SPE_MTLO :: "8 word" where "SPE_MTLO = 0x13"
definition SPE_MULT :: "8 word" where "SPE_MULT = 0x18"
definition SPE_MULTU :: "8 word" where "SPE_MULTU = 0x19"
definition SPE_DIV :: "8 word" where "SPE_DIV = 0x1A"
definition SPE_DIVU :: "8 word" where "SPE_DIVU = 0x1B"
definition SPE_ADD :: "8 word" where "SPE_ADD = 0x20"
definition SPE_ADDU :: "8 word" where "SPE_ADDU = 0x21"
definition SPE_SUB :: "8 word" where "SPE_SUB = 0x22"
definition SPE_SUBU :: "8 word" where "SPE_SUBU = 0x23"
definition SPE_AND :: "8 word" where "SPE_AND = 0x24"
definition SPE_OR :: "8 word" where "SPE_OR = 0x25"
definition SPE_XOR :: "8 word" where "SPE_XOR = 0x26"
definition SPE_NOR :: "8 word" where "SPE_NOR = 0x27"
definition SPE_SLT :: "8 word" where "SPE_SLT = 0x2A"
definition SPE_SLTU :: "8 word" where "SPE_SLTU = 0x2B"

text \<open>
  What the simulator writes to \<^verbatim>\<open>stderr\<close>: one constructor for each
  \<^verbatim>\<open>fprintf\<close> of \<^verbatim>\<open>lmips.c\<close>, with the value its format string prints.
\<close>

datatype diagnostic =
  Invalid_program
  | Unknown_syscall "32 word"
  | Unknown_special "8 word"
  | Unknown_instruction "8 word"
  | Integer_overflow

section \<open>resetSimulator, initSimulator, freeSimulator\<close>

text \<open>The loop \<^verbatim>\<open>for (i = 0; i < REG_COUNT; i++) mips->regs[i] = 0\<close>, started at \<open>i\<close>.\<close>

function reset_regs :: "nat \<Rightarrow> 32 word list \<Rightarrow> 32 word list" where
  "reset_regs i rs = (if i < REG_COUNT then reset_regs (Suc i) (rs[i := 0]) else rs)"
  by pat_completeness auto
termination
  by (relation "measure (\<lambda>(i, rs). REG_COUNT - i)") auto

declare reset_regs.simps [simp del]

definition resetSimulator :: "LMips \<Rightarrow> LMips" where
  "resetSimulator mips =
     (let mips = mips\<lparr>ip := 0\<rparr>;
          mips = mips\<lparr>hi := 0\<rparr>;
          mips = mips\<lparr>lo := 0\<rparr>;
          mips = mips\<lparr>stop := False\<rparr>;
          mips = mips\<lparr>program := None\<rparr>
      in mips\<lparr>regs := reset_regs 0 (regs mips)\<rparr>)"

text \<open>
  \<^verbatim>\<open>STACK_SIZE\<close> is a macro of the missing header whose value the specification does
  not give: it is a parameter of \<open>initSimulator\<close>.
\<close>

definition initSimulator :: "32 word \<Rightarrow> LMips \<Rightarrow> 8 word list option \<Rightarrow> LMips" where
  "initSimulator STACK_SIZE mips prog =
     (let mips = resetSimulator mips;
          mips = mips\<lparr>regs := (regs mips)[reg_sp := STACK_SIZE]\<rparr>
      in mips\<lparr>program := prog\<rparr>)"

definition freeSimulator :: "LMips \<Rightarrow> LMips" where
  "freeSimulator mips = resetSimulator mips"

section \<open>Fetch and decode: the macros of execInstruction\<close>

text \<open>
  \<^verbatim>\<open>GET_INSTR\<close> reads \<^verbatim>\<open>program[ip++]\<close> four times in one expression. C leaves the
  order of the four reads open; the model takes them in the order they are written, left to
  right. The instruction pointer is a 32-bit unsigned integer, so each increment wraps
  modulo \<open>2 ^ 32\<close>. The C code has no bounds check: a read through a null program pointer or
  past the end of the buffer has no defined result, which the model shows as \<open>None\<close>.
\<close>

definition GET_INSTR :: "LMips \<Rightarrow> (32 word \<times> LMips) option" where
  "GET_INSTR mips =
     (case program mips of
        None \<Rightarrow> None
      | Some prog \<Rightarrow>
          (let i0 = unat (ip mips); i1 = unat (ip mips + 1);
               i2 = unat (ip mips + 2); i3 = unat (ip mips + 3)
           in if i0 < length prog \<and> i1 < length prog \<and> i2 < length prog \<and> i3 < length prog
              then Some (push_bit 24 (ucast (prog ! i0)) OR push_bit 16 (ucast (prog ! i1)) OR
                         push_bit 8 (ucast (prog ! i2)) OR ucast (prog ! i3),
                         mips\<lparr>ip := ip mips + 4\<rparr>)
              else None))"

definition GET_OP :: "32 word \<Rightarrow> 32 word" where "GET_OP instr = drop_bit 26 instr"
definition GET_RS :: "32 word \<Rightarrow> 32 word" where "GET_RS instr = drop_bit 21 instr AND 0x1F"
definition GET_RT :: "32 word \<Rightarrow> 32 word" where "GET_RT instr = drop_bit 16 instr AND 0x1F"
definition GET_RD :: "32 word \<Rightarrow> 32 word" where "GET_RD instr = drop_bit 11 instr AND 0x1F"
definition GET_SA :: "32 word \<Rightarrow> 32 word" where "GET_SA instr = drop_bit 6 instr AND 0x1F"
definition GET_FUNC :: "32 word \<Rightarrow> 32 word" where "GET_FUNC instr = instr AND 0x3F"
definition GET_IMMED :: "32 word \<Rightarrow> 32 word" where "GET_IMMED instr = instr AND 0xFFFF"
definition GET_JT :: "32 word \<Rightarrow> 32 word" where "GET_JT instr = instr AND 0x3FFFFFF"

section \<open>zero_extend and sign_extend\<close>

text \<open>\<^verbatim>\<open>uint32_t zero_extend(uint16_t x, int bit_count)\<close>: \<^verbatim>\<open>x | (0x00 << bit_count)\<close>.\<close>

definition zero_extend :: "16 word \<Rightarrow> nat \<Rightarrow> 32 word" where
  "zero_extend x bit_count = ucast x OR push_bit bit_count 0x00"

text \<open>
  \<^verbatim>\<open>int32_t sign_extend(int16_t x, int bit_count)\<close>: the argument is promoted to
  \<^verbatim>\<open>int\<close> for the shift and the bitwise operations, the result of \<^verbatim>\<open>|=\<close> is
  converted back to \<^verbatim>\<open>int16_t\<close>, and the return converts to \<^verbatim>\<open>int32_t\<close>.
\<close>

definition sign_extend :: "16 word \<Rightarrow> nat \<Rightarrow> 32 word" where
  "sign_extend x bit_count =
     (let x = (if signed_drop_bit (bit_count - 1) (scast x :: 32 word) AND 1 \<noteq> 0
               then (ucast ((scast x :: 32 word) OR push_bit bit_count 0xFFFF) :: 16 word)
               else x)
      in scast x)"

section \<open>execInstruction\<close>

text \<open>
  \<^verbatim>\<open>CHECK_OVERFLOW(x, y, op)\<close> computes \<^verbatim>\<open>(int64_t)x op y\<close> in 64 bits and leaves
  \<^verbatim>\<open>execInstruction\<close> with \<^verbatim>\<open>EXEC_EXCP_INT_OVERFLOW\<close> when the result is outside
  \<^verbatim>\<open>INT32_MIN .. INT32_MAX\<close>. The model returns whether that early return is taken;
  \<open>op64\<close> is the operator at type \<^verbatim>\<open>int64_t\<close>.
\<close>

definition INT32_MAX :: "64 word" where "INT32_MAX = 0x7FFFFFFF"
definition INT32_MIN :: "64 word" where "INT32_MIN = - 0x80000000"

definition CHECK_OVERFLOW :: "32 word \<Rightarrow> 32 word \<Rightarrow> (64 word \<Rightarrow> 64 word \<Rightarrow> 64 word) \<Rightarrow> bool" where
  "CHECK_OVERFLOW x y op64 =
     (let res = op64 (scast x) (scast y) in INT32_MAX <s res \<or> res <s INT32_MIN)"

text \<open>
  A step returns the \<^verbatim>\<open>ExecutionResult\<close>, the state it leaves and what it wrote to
  \<^verbatim>\<open>stderr\<close>.
\<close>

type_synonym step_outcome = "ExecutionResult \<times> LMips \<times> diagnostic list"

text \<open>
  \<^verbatim>\<open>BIN_OP(op)\<close>: the operator is used at \<^verbatim>\<open>int64_t\<close> by the overflow check and at
  \<^verbatim>\<open>int32_t\<close> for the value stored in \<^verbatim>\<open>rd\<close>.
\<close>

definition BIN_OP ::
  "(64 word \<Rightarrow> 64 word \<Rightarrow> 64 word) \<Rightarrow> (32 word \<Rightarrow> 32 word \<Rightarrow> 32 word) \<Rightarrow> 32 word \<Rightarrow> LMips \<Rightarrow> step_outcome"
where
  "BIN_OP op64 op32 instr mips =
     (let rs = regs mips ! unat (GET_RS instr);
          rt = regs mips ! unat (GET_RT instr)
      in if CHECK_OVERFLOW rs rt op64 then (EXEC_EXCP_INT_OVERFLOW, mips, [])
         else (let rd = (ucast (GET_RD instr) :: 8 word)
               in (EXEC_SUCCESS, mips\<lparr>regs := (regs mips)[unat rd := op32 rs rt]\<rparr>, [])))"

definition BINU_OP :: "(32 word \<Rightarrow> 32 word \<Rightarrow> 32 word) \<Rightarrow> 32 word \<Rightarrow> LMips \<Rightarrow> LMips" where
  "BINU_OP op32 instr mips =
     mips\<lparr>regs := (regs mips)[unat (GET_RD instr) :=
                     op32 (regs mips ! unat (GET_RS instr)) (regs mips ! unat (GET_RT instr))]\<rparr>"

text \<open>
  The inner \<^verbatim>\<open>switch (func)\<close> of \<^verbatim>\<open>case OP_SPECIAL\<close>. Registers are
  \<^verbatim>\<open>int32_t\<close>: \<^verbatim>\<open>>>\<close> on them is the arithmetic shift, \<^verbatim>\<open><\<close> the signed
  comparison, and \<^verbatim>\<open>*\<close>, \<^verbatim>\<open>+\<close>, \<^verbatim>\<open>-\<close> are 32-bit operations, taken with
  two's-complement wrap-around where C leaves signed overflow open. \<^verbatim>\<open>/\<close> and
  \<^verbatim>\<open>%\<close> truncate towards zero (\<open>sdiv\<close>, \<open>smod\<close> on \<open>int\<close>). The division is
  guarded by \<^verbatim>\<open>rt != 0\<close> only: for \<^verbatim>\<open>INT32_MIN\<close> divided by \<open>- 1\<close> the quotient
  \<open>2 ^ 31\<close> is not an \<^verbatim>\<open>int32_t\<close>, C gives \<^verbatim>\<open>rs % rt\<close> and \<^verbatim>\<open>rs / rt\<close> no
  meaning and the machine division traps, so the step has no result there: \<open>None\<close>.
  \<^verbatim>\<open>SYS_EXIT\<close> is a constant of the missing header and a parameter here.
\<close>

definition exec_special :: "32 word \<Rightarrow> 32 word \<Rightarrow> LMips \<Rightarrow> step_outcome option" where
  "exec_special SYS_EXIT instr mips =
     (let func = (ucast (GET_FUNC instr) :: 8 word); R = regs mips
      in if func = SPE_SLL then
           Some (EXEC_SUCCESS,
            mips\<lparr>regs := R[unat (GET_RD instr) :=
                     push_bit (unat (GET_SA instr)) (R ! unat (GET_RT instr))]\<rparr>, [])
         else if func = SPE_SRL \<or> func = SPE_SRA then
           Some (EXEC_SUCCESS,
            mips\<lparr>regs := R[unat (GET_RD instr) :=
                     signed_drop_bit (unat (GET_SA instr)) (R ! unat (GET_RT instr))]\<rparr>, [])
         else if func = SPE_SLLV then
           (let amount = (ucast (R ! unat (GET_RS instr) AND 0x1F) :: 8 word)
            in Some (EXEC_SUCCESS,
                mips\<lparr>regs := R[unat (GET_RD instr) :=
                         push_bit (unat amount) (R ! unat (GET_RT instr))]\<rparr>, []))
         else if func = SPE_SRLV \<or> func = SPE_SRAV then
           (let amount = (ucast (R ! unat (GET_RS instr) AND 0x1F) :: 8 word)
            in Some (EXEC_SUCCESS,
                mips\<lparr>regs := R[unat (GET_RD instr) :=
                         signed_drop_bit (unat amount) (R ! unat (GET_RT instr))]\<rparr>, []))
         else if func = SPE_JR then
           (let rs = R ! unat (GET_RS instr)
            in Some (EXEC_SUCCESS, mips\<lparr>ip := rs\<rparr>, []))
         else if func = SPE_JALR then
           (let rd = (ucast (GET_RD instr) :: 8 word);
                mips = mips\<lparr>regs := R[(if rd \<le> 0 then reg_ra else unat rd) := ip mips]\<rparr>
            in Some (EXEC_SUCCESS, mips\<lparr>ip := regs mips ! unat (GET_RS instr)\<rparr>, []))
         else if func = SPE_SYSCALL then
           (if R ! reg_v0 = SYS_EXIT then Some (EXEC_SUCCESS, mips\<lparr>stop := True\<rparr>, [])
            else Some (EXEC_FAILURE, mips, [Unknown_syscall (R ! reg_v0)]))
         else if func = SPE_MFHI then
           Some (EXEC_SUCCESS, mips\<lparr>regs := R[unat (GET_RD instr) := hi mips]\<rparr>, [])
         else if func = SPE_MTHI then
           Some (EXEC_SUCCESS, mips\<lparr>hi := R ! unat (GET_RS instr)\<rparr>, [])
         else if func = SPE_MFLO then
           Some (EXEC_SUCCESS, mips\<lparr>regs := R[unat (GET_RD instr) := lo mips]\<rparr>, [])
         else if func = SPE_MTLO then
           Some (EXEC_SUCCESS, mips\<lparr>hi := R ! unat (GET_RS instr)\<rparr>, [])
         else if func = SPE_MULT \<or> func = SPE_MULTU then
           (let result = (scast (R ! unat (GET_RS instr) * R ! unat (GET_RT instr)) :: 64 word);
                mips = mips\<lparr>hi := ucast (signed_drop_bit 32 result)\<rparr>
            in Some (EXEC_SUCCESS, mips\<lparr>lo := ucast result\<rparr>, []))
         else if func = SPE_DIV \<or> func = SPE_DIVU then
           (let rs = R ! unat (GET_RS instr);
                rt = R ! unat (GET_RT instr)
            in if rt \<noteq> 0
               then (if sint rs = - (2 ^ 31) \<and> sint rt = - 1 then None
                     else (let mips = mips\<lparr>hi := word_of_int (sint rs smod sint rt)\<rparr>
                           in Some (EXEC_SUCCESS,
                                    mips\<lparr>lo := word_of_int (sint rs sdiv sint rt)\<rparr>, [])))
               else Some (EXEC_SUCCESS, mips, []))
         else if func = SPE_ADD then Some (BIN_OP (+) (+) instr mips)
         else if func = SPE_ADDU then Some (EXEC_SUCCESS, BINU_OP (+) instr mips, [])
         else if func = SPE_SUB then Some (BIN_OP (-) (-) instr mips)
         else if func = SPE_SUBU then Some (EXEC_SUCCESS, BINU_OP (-) instr mips, [])
         else if func = SPE_AND then Some (EXEC_SUCCESS, BINU_OP (AND) instr mips, [])
         else if func = SPE_OR then Some (EXEC_SUCCESS, BINU_OP (OR) instr mips, [])
         else if func = SPE_XOR then Some (EXEC_SUCCESS, BINU_OP (XOR) instr mips, [])
         else if func = SPE_NOR then
           Some (EXEC_SUCCESS,
            mips\<lparr>regs := R[unat (GET_RD instr) :=
                     NOT (R ! unat (GET_RS instr) OR R ! unat (GET_RT instr))]\<rparr>, [])
         else if func = SPE_SLT \<or> func = SPE_SLTU then
           Some (EXEC_SUCCESS,
            mips\<lparr>regs := R[unat (GET_RD instr) :=
                     (if R ! unat (GET_RS instr) <s R ! unat (GET_RT instr) then 1 else 0)]\<rparr>, [])
         else Some (EXEC_FAILURE, mips, [Unknown_special func]))"

text \<open>
  The outer \<^verbatim>\<open>switch (op)\<close>, applied to the fetched word and the state the fetch left
  (instruction pointer already advanced). The branch offset is
  \<^verbatim>\<open>uint32_t offset = GET_IMMED(instr) << 2\<close>, added to the unsigned instruction pointer.
\<close>

definition dispatch :: "32 word \<Rightarrow> 32 word \<Rightarrow> LMips \<Rightarrow> step_outcome option" where
  "dispatch SYS_EXIT instr mips =
     (let op = (ucast (GET_OP instr) :: 8 word); R = regs mips
      in if op = OP_SPECIAL then exec_special SYS_EXIT instr mips
         else if op = OP_J then
           (let jt = GET_JT instr in Some (EXEC_SUCCESS, mips\<lparr>ip := push_bit 2 jt\<rparr>, []))
         else if op = OP_JAL then
           (let jt = GET_JT instr;
                mips = mips\<lparr>regs := R[reg_ra := ip mips]\<rparr>
            in Some (EXEC_SUCCESS, mips\<lparr>ip := push_bit 2 jt\<rparr>, []))
         else if op = OP_BEQ then
           (if R ! unat (GET_RS instr) = R ! unat (GET_RT instr)
            then (let offset = push_bit 2 (GET_IMMED instr)
                  in Some (EXEC_SUCCESS, mips\<lparr>ip := ip mips + offset\<rparr>, []))
            else Some (EXEC_SUCCESS, mips, []))
         else if op = OP_BNE then
           (if R ! unat (GET_RS instr) \<noteq> R ! unat (GET_RT instr)
            then (let offset = push_bit 2 (GET_IMMED instr)
                  in Some (EXEC_SUCCESS, mips\<lparr>ip := ip mips + offset\<rparr>, []))
            else Some (EXEC_SUCCESS, mips, []))
         else if op = OP_BLEZ then
           (if R ! unat (GET_RS instr) \<le>s 0
            then (let offset = push_bit 2 (GET_IMMED instr)
                  in Some (EXEC_SUCCESS, mips\<lparr>ip := ip mips + offset\<rparr>, []))
            else Some (EXEC_SUCCESS, mips, []))
         else if op = OP_BGTZ then
           (if 0 \<le>s R ! unat (GET_RS instr)
            then (let offset = push_bit 2 (GET_IMMED instr)
                  in Some (EXEC_SUCCESS, mips\<lparr>ip := ip mips + offset\<rparr>, []))
            else Some (EXEC_SUCCESS, mips, []))
         else if op = OP_ADDI then
           (let immed = sign_extend (ucast (GET_IMMED instr)) 16;
                rs = R ! unat (GET_RS instr)
            in if CHECK_OVERFLOW rs immed (+) then Some (EXEC_EXCP_INT_OVERFLOW, mips, [])
               else Some (EXEC_SUCCESS, mips\<lparr>regs := R[unat (GET_RT instr) := rs + immed]\<rparr>, []))
         else if op = OP_ADDIU then
           (let immed = zero_extend (ucast (GET_IMMED instr)) 16
            in Some (EXEC_SUCCESS,
                mips\<lparr>regs := R[unat (GET_RT instr) := R ! unat (GET_RS instr) + immed]\<rparr>, []))
         else if op = OP_SLTI then
           (let immed = sign_extend (ucast (GET_IMMED instr)) 16
            in Some (EXEC_SUCCESS,
                mips\<lparr>regs := R[unat (GET_RT instr) :=
                         (if R ! unat (GET_RS instr) <s immed then 1 else 0)]\<rparr>, []))
         else if op = OP_SLTIU then
           (let immed = zero_extend (ucast (GET_IMMED instr)) 16
            in Some (EXEC_SUCCESS,
                mips\<lparr>regs := R[unat (GET_RT instr) :=
                         (if R ! unat (GET_RS instr) < immed then 1 else 0)]\<rparr>, []))
         else if op = OP_ANDI then
           (let immed = zero_extend (ucast (GET_IMMED instr)) 16
            in Some (EXEC_SUCCESS, mips\<lparr>regs := R[unat (GET_RT instr) := GET_RS instr AND immed]\<rparr>, []))
         else if op = OP_ORI then
           (let immed = zero_extend (ucast (GET_IMMED instr)) 16
            in Some (EXEC_SUCCESS, mips\<lparr>regs := R[unat (GET_RT instr) := GET_RS instr OR immed]\<rparr>, []))
         else if op = OP_XORI then
           (let immed = zero_extend (ucast (GET_IMMED instr)) 16
            in Some (EXEC_SUCCESS, mips\<lparr>regs := R[unat (GET_RT instr) := GET_RS instr XOR immed]\<rparr>, []))
         else Some (EXEC_FAILURE, mips, [Unknown_instruction op]))"

text \<open>
  \<^verbatim>\<open>execInstruction\<close>: fetch (\<^verbatim>\<open>uint32_t instr = GET_INSTR()\<close>), then the switch.
  \<open>None\<close> is a step without a defined result: a fetch outside the program buffer, or
  the division of \<^verbatim>\<open>INT32_MIN\<close> by \<open>- 1\<close>.
\<close>

definition execInstruction :: "32 word \<Rightarrow> LMips \<Rightarrow> step_outcome option" where
  "execInstruction SYS_EXIT mips =
     (case GET_INSTR mips of
        None \<Rightarrow> None
      | Some (instr, mips) \<Rightarrow> dispatch SYS_EXIT instr mips)"

section \<open>handleException and runSimulator\<close>

definition handleException :: "ExecutionResult \<Rightarrow> diagnostic list" where
  "handleException exc = (if exc = EXEC_EXCP_INT_OVERFLOW then [Integer_overflow] else [])"

text \<open>
  The loop \<^verbatim>\<open>while (!mips->stop)\<close> of \<^verbatim>\<open>runSimulator\<close>, with the local
  \<^verbatim>\<open>result\<close> and the output so far as arguments. The loop need not end (a program may
  jump to itself): \<open>None\<close> is a run that does not return, as is a run with a step that
  has no defined result.
\<close>

partial_function (option) run_loop ::
  "32 word \<Rightarrow> ExecutionResult \<Rightarrow> LMips \<Rightarrow> diagnostic list \<Rightarrow> step_outcome option"
where
  "run_loop SYS_EXIT result mips err =
     (if \<not> stop mips then
        (case execInstruction SYS_EXIT mips of
           None \<Rightarrow> None
         | Some (result, mips, out) \<Rightarrow>
             if result \<noteq> EXEC_SUCCESS
             then run_loop SYS_EXIT result (mips\<lparr>stop := True\<rparr>)
                    (err @ out @ handleException result)
             else run_loop SYS_EXIT result mips (err @ out))
      else Some (result, mips, err))"

declare run_loop.simps [code]

definition runSimulator :: "32 word \<Rightarrow> LMips \<Rightarrow> step_outcome option" where
  "runSimulator SYS_EXIT mips =
     (if program mips = None then Some (EXEC_FAILURE, mips, [Invalid_program])
      else run_loop SYS_EXIT EXEC_FAILURE mips [])"

section \<open>Example states\<close>

text \<open>
  A machine about to run the program \<open>prog\<close> from offset 0, with \<open>a\<close> in register 1,
  \<open>b\<close> in register 2 and recognisable values in \<open>hi\<close> and \<open>lo\<close>; the theorems below are
  evaluated on such states.
\<close>

definition example_state :: "8 word list \<Rightarrow> 32 word \<Rightarrow> 32 word \<Rightarrow> LMips" where
  "example_state prog a b =
     \<lparr>regs = (replicate 32 0)[1 := a, 2 := b], hi = 7, lo = 9, ip = 0, stop = False,
      program = Some prog\<rparr>"

section \<open>Facts about the model\<close>

lemmas opcode_defs =
  OP_SPECIAL_def OP_J_def OP_JAL_def OP_BEQ_def OP_BNE_def OP_BLEZ_def OP_BGTZ_def
  OP_ADDI_def OP_ADDIU_def OP_SLTI_def OP_SLTIU_def OP_ANDI_def OP_ORI_def OP_XORI_def

lemmas funct_defs =
  SPE_SLL_def SPE_SRL_def SPE_SRA_def SPE_SLLV_def SPE_SRLV_def SPE_SRAV_def SPE_JR_def
  SPE_JALR_def SPE_SYSCALL_def SPE_MFHI_def SPE_MTHI_def SPE_MFLO_def SPE_MTLO_def
  SPE_MULT_def SPE_MULTU_def SPE_DIV_def SPE_DIVU_def SPE_ADD_def SPE_ADDU_def SPE_SUB_def
  SPE_SUBU_def SPE_AND_def SPE_OR_def SPE_XOR_def SPE_NOR_def SPE_SLT_def SPE_SLTU_def

subsection \<open>Fields, casts and the overflow check\<close>

lemma unat_field8: "unat (ucast ((x :: 32 word) AND 0x1F) :: 8 word) = unat (x AND 0x1F)"
proof -
  have "unat (x AND 0x1F) \<le> unat (0x1F :: 32 word)"
    using word_and_le1 [of x "0x1F"] by (simp only: word_le_nat_alt)
  then have "unat (x AND 0x1F) < 256" by simp
  then show ?thesis by (simp add: unsigned_ucast_eq take_bit_nat_eq_self)
qed

lemma sint_scast64: "sint (scast (a :: 32 word) :: 64 word) = sint a"
  by (simp add: sint_up_scast is_up)

lemma sint32_range: "- (2 ^ 31) \<le> sint (a :: 32 word) \<and> sint a < 2 ^ 31"
  using sint_ge [of a] sint_lt [of a] by simp

lemma sint_add64: "sint ((scast (a :: 32 word) :: 64 word) + scast (b :: 32 word)) = sint a + sint b"
proof -
  have "- (2 ^ 63) \<le> sint a + sint b" "sint a + sint b < 2 ^ 63"
    using sint32_range [of a] sint32_range [of b] by simp_all
  then have "signed_take_bit 63 (sint a + sint b) = sint a + sint b"
    by (simp add: signed_take_bit_int_eq_self)
  then show ?thesis by (simp add: sint_word_add sint_scast64)
qed

lemma CHECK_OVERFLOW_add:
  "CHECK_OVERFLOW a b (+) \<longleftrightarrow> \<not> (- (2 ^ 31) \<le> sint a + sint b \<and> sint a + sint b \<le> 2 ^ 31 - 1)"
  by (auto simp: CHECK_OVERFLOW_def Let_def word_sless_alt sint_add64 INT32_MAX_def INT32_MIN_def)

lemma sint_add32:
  "- (2 ^ 31) \<le> sint a + sint b \<Longrightarrow> sint a + sint b \<le> 2 ^ 31 - 1 \<Longrightarrow> sint ((a :: 32 word) + b) = sint a + sint b"
  by (simp add: sint_word_add signed_take_bit_int_eq_self)

lemma ucast_scast_or_high: "(ucast ((scast (x :: 16 word) :: 32 word) OR push_bit 16 y) :: 16 word) = x"
  by (rule bit_word_eqI) (auto simp: bit_simps)

lemma sign_extend_16: "sign_extend x 16 = scast x"
  unfolding sign_extend_def Let_def by (simp only: ucast_scast_or_high if_cancel)

lemma sint_sign_extend_16: "sint (sign_extend x 16) = sint x"
  by (simp add: sign_extend_16 sint_up_scast is_up)

lemma zero_extend_16: "zero_extend x 16 = ucast x"
  by (simp add: zero_extend_def)

lemma GET_IMMED_take_bit: "GET_IMMED instr = take_bit 16 instr"
proof -
  have "(0xFFFF :: 32 word) = mask 16" by (simp add: mask_eq_exp_minus_1)
  then show ?thesis by (simp add: GET_IMMED_def take_bit_eq_mask)
qed

lemma GET_IMMED_zero_extend:
  "GET_IMMED instr = zero_extend (ucast (GET_IMMED instr)) 16"
  unfolding zero_extend_16 GET_IMMED_take_bit
  by (rule bit_word_eqI) (auto simp: bit_simps)

lemma unat_zero_extend_16: "unat (zero_extend imm 16) = unat imm"
proof -
  have "unat imm < 2 ^ 16" using unsigned_less [of imm] by simp
  then show ?thesis by (simp add: zero_extend_16 unsigned_ucast_eq take_bit_nat_eq_self)
qed

lemma exec_after_fetch:
  "GET_INSTR mips = Some (instr, mips') \<Longrightarrow>
     execInstruction SYS_EXIT mips = dispatch SYS_EXIT instr mips'"
  by (simp add: execInstruction_def)

lemma GET_INSTR_state:
  "GET_INSTR mips = Some (instr, mips') \<Longrightarrow> mips' = mips\<lparr>ip := ip mips + 4\<rparr>"
  by (auto simp: GET_INSTR_def Let_def split: option.splits if_splits)

section \<open>Moves to hi and lo\<close>

text \<open>
  Claim C6. MTLO copies the value of register \<open>rs\<close> into \<open>hi\<close>, not into \<open>lo\<close>: a step
  that fetches a SPECIAL word with function code MTLO succeeds and leaves the state of the
  fetch with \<open>hi\<close> replaced by the value register \<open>rs\<close> had; \<open>lo\<close> is as before.
\<close>

theorem mtlo_writes_hi:
  assumes "GET_INSTR mips = Some (instr, mips')"
    and "ucast (GET_OP instr) = OP_SPECIAL"
    and "ucast (GET_FUNC instr) = SPE_MTLO"
  shows "execInstruction SYS_EXIT mips =
           Some (EXEC_SUCCESS, mips'\<lparr>hi := regs mips ! unat (GET_RS instr)\<rparr>, []) \<and>
         lo (mips'\<lparr>hi := regs mips ! unat (GET_RS instr)\<rparr>) = lo mips"
proof -
  have "mips' = mips\<lparr>ip := ip mips + 4\<rparr>"
    using assms(1) by (rule GET_INSTR_state)
  then have "regs mips' = regs mips" "lo mips' = lo mips" by simp_all
  moreover have "dispatch SYS_EXIT instr mips' = Some (EXEC_SUCCESS, mips'\<lparr>hi := regs mips' ! unat (GET_RS instr)\<rparr>, [])"
    using assms(2,3) by (simp add: dispatch_def exec_special_def funct_defs Let_def)
  ultimately show ?thesis
    using exec_after_fetch [OF assms(1)] by simp
qed

theorem mtlo_writes_hi_witness:
  "GET_INSTR (example_state [0x00, 0x20, 0x00, 0x13] 5 6) =
     Some (0x00200013, example_state [0x00, 0x20, 0x00, 0x13] 5 6\<lparr>ip := 4\<rparr>) \<and>
   ucast (GET_OP 0x00200013) = OP_SPECIAL \<and> ucast (GET_FUNC 0x00200013) = SPE_MTLO \<and>
   execInstruction 10 (example_state [0x00, 0x20, 0x00, 0x13] 5 6) =
     Some (EXEC_SUCCESS, example_state [0x00, 0x20, 0x00, 0x13] 5 6\<lparr>ip := 4, hi := 5\<rparr>, []) \<and>
   lo (example_state [0x00, 0x20, 0x00, 0x13] 5 6\<lparr>ip := 4, hi := 5\<rparr>) = 9"
proof -
  have f: "GET_INSTR (example_state [0x00, 0x20, 0x00, 0x13] 5 6) =
     Some (0x00200013, example_state [0x00, 0x20, 0x00, 0x13] 5 6\<lparr>ip := 4\<rparr>)"
    by (simp add: GET_INSTR_def example_state_def)
  have o: "ucast (GET_OP 0x00200013) = OP_SPECIAL"
    by (simp add: GET_OP_def OP_SPECIAL_def)
  have g: "ucast (GET_FUNC 0x00200013) = SPE_MTLO"
    by (simp add: GET_FUNC_def SPE_MTLO_def)
  have r: "regs (example_state [0x00, 0x20, 0x00, 0x13] 5 6) ! unat (GET_RS 0x00200013) = 5"
    by (simp add: GET_RS_def example_state_def)
  show ?thesis
    using mtlo_writes_hi [OF f o g, of 10] f o g r by (simp add: example_state_def)
qed

section \<open>Trapping addition: ADD and ADDI\<close>

lemma dispatch_ADD:
  assumes "ucast (GET_OP instr) = OP_SPECIAL" and "ucast (GET_FUNC instr) = SPE_ADD"
  shows "dispatch SYS_EXIT instr mips =
           (if CHECK_OVERFLOW (regs mips ! unat (GET_RS instr)) (regs mips ! unat (GET_RT instr)) (+)
            then Some (EXEC_EXCP_INT_OVERFLOW, mips, [])
            else Some (EXEC_SUCCESS,
                  mips\<lparr>regs := (regs mips)[unat (GET_RD instr) :=
                           regs mips ! unat (GET_RS instr) + regs mips ! unat (GET_RT instr)]\<rparr>, []))"
  using assms
  by (simp add: dispatch_def exec_special_def funct_defs BIN_OP_def Let_def GET_RD_def unat_field8)

lemma dispatch_ADDI:
  assumes "ucast (GET_OP instr) = OP_ADDI"
  shows "dispatch SYS_EXIT instr mips =
           (if CHECK_OVERFLOW (regs mips ! unat (GET_RS instr))
                 (sign_extend (ucast (GET_IMMED instr)) 16) (+)
            then Some (EXEC_EXCP_INT_OVERFLOW, mips, [])
            else Some (EXEC_SUCCESS,
                  mips\<lparr>regs := (regs mips)[unat (GET_RT instr) :=
                           regs mips ! unat (GET_RS instr) + sign_extend (ucast (GET_IMMED instr)) 16]\<rparr>, []))"
  using assms
  by (simp add: dispatch_def opcode_defs Let_def)

text \<open>
  Claim C1. ADD and ADDI add a signed 32-bit register value \<open>a\<close> and a signed 32-bit \<open>b\<close>
  (the value of register \<open>rt\<close> for ADD, the sign-extended 16-bit immediate for ADDI). When
  the mathematical sum lies in \<open>- 2 ^ 31 .. 2 ^ 31 - 1\<close> the step succeeds and the destination
  register (\<open>rd\<close> for ADD, \<open>rt\<close> for ADDI) receives the sum; otherwise the step returns the
  integer-overflow result and the registers are those before the step: nothing is stored
  before the fault.
\<close>

theorem add_addi_trap_on_overflow:
  assumes "GET_INSTR mips = Some (instr, mips')"
  shows "(ucast (GET_OP instr) = OP_SPECIAL \<and> ucast (GET_FUNC instr) = SPE_ADD \<longrightarrow>
            (let a = regs mips ! unat (GET_RS instr); b = regs mips ! unat (GET_RT instr)
             in execInstruction SYS_EXIT mips =
                  (if - (2 ^ 31) \<le> sint a + sint b \<and> sint a + sint b \<le> 2 ^ 31 - 1
                   then Some (EXEC_SUCCESS,
                              mips'\<lparr>regs := (regs mips)[unat (GET_RD instr) := a + b]\<rparr>, [])
                   else Some (EXEC_EXCP_INT_OVERFLOW, mips', [])) \<and>
                (- (2 ^ 31) \<le> sint a + sint b \<and> sint a + sint b \<le> 2 ^ 31 - 1 \<longrightarrow>
                   sint (a + b) = sint a + sint b))) \<and>
         (ucast (GET_OP instr) = OP_ADDI \<longrightarrow>
            (let a = regs mips ! unat (GET_RS instr);
                 b = sign_extend (ucast (GET_IMMED instr)) 16
             in sint b = sint (ucast (GET_IMMED instr) :: 16 word) \<and>
                execInstruction SYS_EXIT mips =
                  (if - (2 ^ 31) \<le> sint a + sint b \<and> sint a + sint b \<le> 2 ^ 31 - 1
                   then Some (EXEC_SUCCESS,
                              mips'\<lparr>regs := (regs mips)[unat (GET_RT instr) := a + b]\<rparr>, [])
                   else Some (EXEC_EXCP_INT_OVERFLOW, mips', [])) \<and>
                (- (2 ^ 31) \<le> sint a + sint b \<and> sint a + sint b \<le> 2 ^ 31 - 1 \<longrightarrow>
                   sint (a + b) = sint a + sint b))) \<and>
         regs mips' = regs mips"
proof -
  have st: "mips' = mips\<lparr>ip := ip mips + 4\<rparr>"
    using assms by (rule GET_INSTR_state)
  then have R: "regs mips' = regs mips" by simp
  note ex = exec_after_fetch [OF assms, of SYS_EXIT]
  have add: "ucast (GET_OP instr) = OP_SPECIAL \<and> ucast (GET_FUNC instr) = SPE_ADD \<longrightarrow>
            (let a = regs mips ! unat (GET_RS instr); b = regs mips ! unat (GET_RT instr)
             in execInstruction SYS_EXIT mips =
                  (if - (2 ^ 31) \<le> sint a + sint b \<and> sint a + sint b \<le> 2 ^ 31 - 1
                   then Some (EXEC_SUCCESS,
                              mips'\<lparr>regs := (regs mips)[unat (GET_RD instr) := a + b]\<rparr>, [])
                   else Some (EXEC_EXCP_INT_OVERFLOW, mips', [])) \<and>
                (- (2 ^ 31) \<le> sint a + sint b \<and> sint a + sint b \<le> 2 ^ 31 - 1 \<longrightarrow>
                   sint (a + b) = sint a + sint b))"
    by (simp add: ex dispatch_ADD CHECK_OVERFLOW_add R Let_def sint_add32)
  have addi: "ucast (GET_OP instr) = OP_ADDI \<longrightarrow>
            (let a = regs mips ! unat (GET_RS instr);
                 b = sign_extend (ucast (GET_IMMED instr)) 16
             in sint b = sint (ucast (GET_IMMED instr) :: 16 word) \<and>
                execInstruction SYS_EXIT mips =
                  (if - (2 ^ 31) \<le> sint a + sint b \<and> sint a + sint b \<le> 2 ^ 31 - 1
                   then Some (EXEC_SUCCESS,
                              mips'\<lparr>regs := (regs mips)[unat (GET_RT instr) := a + b]\<rparr>, [])
                   else Some (EXEC_EXCP_INT_OVERFLOW, mips', [])) \<and>
                (- (2 ^ 31) \<le> sint a + sint b \<and> sint a + sint b \<le> 2 ^ 31 - 1 \<longrightarrow>
                   sint (a + b) = sint a + sint b))"
    by (simp add: ex dispatch_ADDI CHECK_OVERFLOW_add R Let_def sint_add32 sint_sign_extend_16)
  from add addi R show ?thesis by blast
qed


theorem add_addi_trap_on_overflow_witness:
  "GET_INSTR (example_state [0x00, 0x22, 0x18, 0x20] 5 6) =
     Some (0x00221820, example_state [0x00, 0x22, 0x18, 0x20] 5 6\<lparr>ip := 4\<rparr>) \<and>
   ucast (GET_OP 0x00221820) = OP_SPECIAL \<and> ucast (GET_FUNC 0x00221820) = SPE_ADD \<and>
   execInstruction 10 (example_state [0x00, 0x22, 0x18, 0x20] 5 6) =
     Some (EXEC_SUCCESS,
           example_state [0x00, 0x22, 0x18, 0x20] 5 6
             \<lparr>ip := 4, regs := (replicate 32 0)[1 := 5, 2 := 6, 3 := 11]\<rparr>, []) \<and>
   execInstruction 10 (example_state [0x00, 0x22, 0x18, 0x20] 0x7FFFFFFF 1) =
     Some (EXEC_EXCP_INT_OVERFLOW,
           example_state [0x00, 0x22, 0x18, 0x20] 0x7FFFFFFF 1\<lparr>ip := 4\<rparr>, []) \<and>
   GET_INSTR (example_state [0x20, 0x22, 0xFF, 0xFF] 5 6) =
     Some (0x2022FFFF, example_state [0x20, 0x22, 0xFF, 0xFF] 5 6\<lparr>ip := 4\<rparr>) \<and>
   ucast (GET_OP 0x2022FFFF) = OP_ADDI \<and>
   execInstruction 10 (example_state [0x20, 0x22, 0xFF, 0xFF] 5 6) =
     Some (EXEC_SUCCESS,
           example_state [0x20, 0x22, 0xFF, 0xFF] 5 6
             \<lparr>ip := 4, regs := (replicate 32 0)[1 := 5, 2 := 4]\<rparr>, []) \<and>
   execInstruction 10 (example_state [0x20, 0x22, 0xFF, 0xFF] 0x80000000 6) =
     Some (EXEC_EXCP_INT_OVERFLOW,
           example_state [0x20, 0x22, 0xFF, 0xFF] 0x80000000 6\<lparr>ip := 4\<rparr>, [])"
proof -
  have fa: "GET_INSTR (example_state [0x00, 0x22, 0x18, 0x20] a b) =
     Some (0x00221820, example_state [0x00, 0x22, 0x18, 0x20] a b\<lparr>ip := 4\<rparr>)" for a b
    by (simp add: GET_INSTR_def example_state_def)
  have fi: "GET_INSTR (example_state [0x20, 0x22, 0xFF, 0xFF] a b) =
     Some (0x2022FFFF, example_state [0x20, 0x22, 0xFF, 0xFF] a b\<lparr>ip := 4\<rparr>)" for a b
    by (simp add: GET_INSTR_def example_state_def)
  have dec: "ucast (GET_OP 0x00221820) = OP_SPECIAL" "ucast (GET_FUNC 0x00221820) = SPE_ADD"
    "ucast (GET_OP 0x2022FFFF) = OP_ADDI"
    "unat (GET_RS 0x00221820) = 1" "unat (GET_RT 0x00221820) = 2" "unat (GET_RD 0x00221820) = 3"
    "unat (GET_RS 0x2022FFFF) = 1" "unat (GET_RT 0x2022FFFF) = 2"
    "(ucast (GET_IMMED 0x2022FFFF) :: 16 word) = - 1"
    by (simp_all add: GET_OP_def GET_FUNC_def GET_RS_def GET_RT_def GET_RD_def GET_IMMED_def
        OP_SPECIAL_def SPE_ADD_def OP_ADDI_def)
  have se: "sign_extend (- 1) 16 = - 1"
    by (simp add: sign_extend_16)
  have a1: "execInstruction 10 (example_state [0x00, 0x22, 0x18, 0x20] 5 6) =
     Some (EXEC_SUCCESS,
           example_state [0x00, 0x22, 0x18, 0x20] 5 6
             \<lparr>ip := 4, regs := (replicate 32 0)[1 := 5, 2 := 6, 3 := 11]\<rparr>, [])"
    using add_addi_trap_on_overflow [OF fa [of 5 6], of 10] dec
    by (simp add: example_state_def)
  have a2: "execInstruction 10 (example_state [0x00, 0x22, 0x18, 0x20] 0x7FFFFFFF 1) =
     Some (EXEC_EXCP_INT_OVERFLOW,
           example_state [0x00, 0x22, 0x18, 0x20] 0x7FFFFFFF 1\<lparr>ip := 4\<rparr>, [])"
    using add_addi_trap_on_overflow [OF fa [of "0x7FFFFFFF" 1], of 10] dec
    by (simp add: example_state_def)
  have i1: "execInstruction 10 (example_state [0x20, 0x22, 0xFF, 0xFF] 5 6) =
     Some (EXEC_SUCCESS,
           example_state [0x20, 0x22, 0xFF, 0xFF] 5 6
             \<lparr>ip := 4, regs := (replicate 32 0)[1 := 5, 2 := 4]\<rparr>, [])"
    using add_addi_trap_on_overflow [OF fi [of 5 6], of 10] dec se
    by (simp add: example_state_def)
  have i2: "execInstruction 10 (example_state [0x20, 0x22, 0xFF, 0xFF] 0x80000000 6) =
     Some (EXEC_EXCP_INT_OVERFLOW,
           example_state [0x20, 0x22, 0xFF, 0xFF] 0x80000000 6\<lparr>ip := 4\<rparr>, [])"
    using add_addi_trap_on_overflow [OF fi [of "0x80000000" 6], of 10] dec se
    by (simp add: example_state_def)
  show ?thesis
    using fa [of 5 6] fi [of 5 6] dec(1-3) a1 a2 i1 i2 by simp
qed

section \<open>The fetch: GET_INSTR\<close>

lemma unat_byte_lt: "unat (b :: 8 word) < 256"
  using unsigned_less [of b] by simp

lemma big_endian_nat:
  fixes b0 b1 b2 b3 :: "8 word"
  shows "push_bit 24 (unat b0) OR push_bit 16 (unat b1) OR push_bit 8 (unat b2) OR unat b3 =
           2 ^ 24 * unat b0 + 2 ^ 16 * unat b1 + 2 ^ 8 * unat b2 + unat b3"
proof -
  have s3: "push_bit 8 (unat b2) OR unat b3 = push_bit 8 (unat b2) + unat b3"
    by (rule disjunctive_add [symmetric]) (auto simp: bit_simps dest: bit_imp_le_length)
  have s2: "push_bit 16 (unat b1) OR (push_bit 8 (unat b2) OR unat b3) =
              push_bit 16 (unat b1) + (push_bit 8 (unat b2) OR unat b3)"
    by (rule disjunctive_add [symmetric]) (auto simp: bit_simps dest: bit_imp_le_length)
  have s1: "push_bit 24 (unat b0) OR (push_bit 16 (unat b1) OR (push_bit 8 (unat b2) OR unat b3)) =
              push_bit 24 (unat b0) + (push_bit 16 (unat b1) OR (push_bit 8 (unat b2) OR unat b3))"
    by (rule disjunctive_add [symmetric]) (auto simp: bit_simps dest: bit_imp_le_length)
  have "push_bit 24 (unat b0) OR push_bit 16 (unat b1) OR push_bit 8 (unat b2) OR unat b3 =
          push_bit 24 (unat b0) + (push_bit 16 (unat b1) + (push_bit 8 (unat b2) + unat b3))"
    by (simp only: s1) (simp only: s2, simp only: s3)
  then show ?thesis
    by (simp add: push_bit_eq_mult)
qed

lemma unat_big_endian:
  fixes b0 b1 b2 b3 :: "8 word"
  shows "unat (push_bit 24 (ucast b0) OR push_bit 16 (ucast b1) OR push_bit 8 (ucast b2) OR
               ucast b3 :: 32 word) =
           2 ^ 24 * unat b0 + 2 ^ 16 * unat b1 + 2 ^ 8 * unat b2 + unat b3"
proof -
  have u: "unat (ucast b :: 32 word) = unat b" for b :: "8 word"
    using unat_byte_lt [of b] by (simp add: unsigned_ucast_eq take_bit_nat_eq_self)
  have p: "unat (push_bit k (ucast b) :: 32 word) = push_bit k (unat b)"
    if "k \<le> 24" for k and b :: "8 word"
  proof -
    have "push_bit k (unat b) < 2 ^ (k + 8)"
      using unat_byte_lt [of b] by (simp add: push_bit_eq_mult power_add)
    also have "(2 :: nat) ^ (k + 8) \<le> 2 ^ 32"
      using that by (intro power_increasing) simp_all
    finally show ?thesis
      by (simp add: unsigned_push_bit_eq u take_bit_nat_eq_self)
  qed
  show ?thesis
    by (simp only: unsigned_or_eq p u big_endian_nat le_refl)
qed

text \<open>
  Claim C2. One fetch reads the four bytes of the program buffer at offsets
  \<open>ip\<close>, \<open>ip + 1\<close>, \<open>ip + 2\<close> and \<open>ip + 3\<close>, combines them big-endian (the byte at offset
  \<open>ip\<close> is the most significant byte of the 32-bit word) and advances the instruction
  pointer by 4. The four offsets are taken inside the buffer, and below \<open>2 ^ 32\<close> so that
  the 32-bit instruction pointer does not wrap between the reads.
\<close>

theorem fetch_big_endian:
  assumes "program mips = Some prog"
    and "unat (ip mips) + 3 < length prog"
    and "unat (ip mips) + 3 < 2 ^ 32"
  shows "(let b0 = prog ! unat (ip mips); b1 = prog ! (unat (ip mips) + 1);
              b2 = prog ! (unat (ip mips) + 2); b3 = prog ! (unat (ip mips) + 3);
              w = 2 ^ 24 * unat b0 + 2 ^ 16 * unat b1 + 2 ^ 8 * unat b2 + unat b3
          in GET_INSTR mips = Some (word_of_nat w, mips\<lparr>ip := ip mips + 4\<rparr>) \<and>
             unat (word_of_nat w :: 32 word) = w)"
proof -
  have i: "unat (ip mips + 1) = unat (ip mips) + 1" "unat (ip mips + 2) = unat (ip mips) + 2"
    "unat (ip mips + 3) = unat (ip mips) + 3"
    using assms(3) by (simp_all add: unat_word_ariths)
  have "GET_INSTR mips =
          Some (push_bit 24 (ucast (prog ! unat (ip mips))) OR
                push_bit 16 (ucast (prog ! (unat (ip mips) + 1))) OR
                push_bit 8 (ucast (prog ! (unat (ip mips) + 2))) OR
                ucast (prog ! (unat (ip mips) + 3)), mips\<lparr>ip := ip mips + 4\<rparr>)"
    using assms(1,2) by (simp add: GET_INSTR_def Let_def i)
  moreover have "word_of_nat (unat x) = x" for x :: "32 word" by simp
  ultimately show ?thesis
    unfolding Let_def by (metis unat_big_endian)
qed

theorem fetch_big_endian_witness:
  "program (example_state [0x12, 0x34, 0x56, 0x78] 5 6) = Some [0x12, 0x34, 0x56, 0x78] \<and>
   unat (ip (example_state [0x12, 0x34, 0x56, 0x78] 5 6)) + 3 < length [0x12, 0x34, 0x56, 0x78 :: 8 word] \<and>
   unat (ip (example_state [0x12, 0x34, 0x56, 0x78] 5 6)) + 3 < 2 ^ 32 \<and>
   GET_INSTR (example_state [0x12, 0x34, 0x56, 0x78] 5 6) =
     Some (0x12345678, example_state [0x12, 0x34, 0x56, 0x78] 5 6\<lparr>ip := 4\<rparr>)"
proof -
  have p: "program (example_state [0x12, 0x34, 0x56, 0x78] 5 6) = Some [0x12, 0x34, 0x56, 0x78]"
    by (simp add: example_state_def)
  have l: "unat (ip (example_state [0x12, 0x34, 0x56, 0x78] 5 6)) + 3 < length [0x12, 0x34, 0x56, 0x78 :: 8 word]"
    by (simp add: example_state_def)
  have n: "unat (ip (example_state [0x12, 0x34, 0x56, 0x78] 5 6)) + 3 < 2 ^ 32"
    by (simp add: example_state_def)
  show ?thesis
    using fetch_big_endian [OF p l n] p l n by (simp add: example_state_def)
qed

section \<open>Branches: BEQ and BNE\<close>

lemma dispatch_BEQ:
  assumes "ucast (GET_OP instr) = OP_BEQ"
  shows "dispatch SYS_EXIT instr mips =
           (if regs mips ! unat (GET_RS instr) = regs mips ! unat (GET_RT instr)
            then Some (EXEC_SUCCESS, mips\<lparr>ip := ip mips + push_bit 2 (GET_IMMED instr)\<rparr>, [])
            else Some (EXEC_SUCCESS, mips, []))"
  using assms by (simp add: dispatch_def opcode_defs Let_def)

lemma dispatch_BNE:
  assumes "ucast (GET_OP instr) = OP_BNE"
  shows "dispatch SYS_EXIT instr mips =
           (if regs mips ! unat (GET_RS instr) \<noteq> regs mips ! unat (GET_RT instr)
            then Some (EXEC_SUCCESS, mips\<lparr>ip := ip mips + push_bit 2 (GET_IMMED instr)\<rparr>, [])
            else Some (EXEC_SUCCESS, mips, []))"
  using assms by (simp add: dispatch_def opcode_defs Let_def)

lemma sign_extend_nonneg:
  assumes "\<not> bit (imm :: 16 word) 15"
  shows "sign_extend imm 16 = zero_extend imm 16"
proof -
  have low: "n < 15" if "bit imm n" for n
    using that assms bit_imp_le_length [of imm n] by (cases "n = 15") auto
  show ?thesis
    unfolding sign_extend_16 zero_extend_16
    by (rule bit_word_eqI) (auto simp: bit_simps min_def dest: low)
qed

text \<open>
  The specification takes the branch offset as the sign-extended immediate. On the word
  \<^verbatim>\<open>0x1022FFFF\<close> (BEQ of registers 1 and 2, immediate \<^verbatim>\<open>0xFFFF\<close>, that is -1) with
  equal operands, fetched at offset 0, that would give \<open>4 + (-1) * 4 = 0\<close>; the step
  leaves the instruction pointer at \<^verbatim>\<open>0x40000\<close>.
\<close>

theorem branch_offset_counterexample:
  "execInstruction 10 (example_state [0x10, 0x22, 0xFF, 0xFF] 5 5) =
     Some (EXEC_SUCCESS, example_state [0x10, 0x22, 0xFF, 0xFF] 5 5\<lparr>ip := 0x40000\<rparr>, []) \<and>
   (ucast (GET_OP 0x1022FFFF) :: 8 word) = OP_BEQ \<and>
   (4 :: 32 word) + sign_extend (ucast (GET_IMMED 0x1022FFFF)) 16 * 4 = 0 \<and>
   ip (example_state [0x10, 0x22, 0xFF, 0xFF] 5 5\<lparr>ip := 0x40000\<rparr>) \<noteq>
     4 + sign_extend (ucast (GET_IMMED 0x1022FFFF)) 16 * 4"
proof -
  have f: "GET_INSTR (example_state [0x10, 0x22, 0xFF, 0xFF] 5 5) =
     Some (0x1022FFFF, example_state [0x10, 0x22, 0xFF, 0xFF] 5 5\<lparr>ip := 4\<rparr>)"
    by (simp add: GET_INSTR_def example_state_def)
  have dec: "ucast (GET_OP 0x1022FFFF) = OP_BEQ"
    "unat (GET_RS 0x1022FFFF) = 1" "unat (GET_RT 0x1022FFFF) = 2"
    "GET_IMMED 0x1022FFFF = 0xFFFF"
    by (simp_all add: GET_OP_def GET_RS_def GET_RT_def GET_IMMED_def OP_BEQ_def)
  have e: "execInstruction 10 (example_state [0x10, 0x22, 0xFF, 0xFF] 5 5) =
     Some (EXEC_SUCCESS, example_state [0x10, 0x22, 0xFF, 0xFF] 5 5\<lparr>ip := 0x40000\<rparr>, [])"
    by (simp add: exec_after_fetch [OF f] dispatch_BEQ dec) (simp add: example_state_def)
  have s: "(4 :: 32 word) + sign_extend (ucast (GET_IMMED 0x1022FFFF)) 16 * 4 = 0"
    by (simp add: dec sign_extend_16)
  show ?thesis
    using e dec(1) s by (simp add: example_state_def)
qed

text \<open>
  Claim C3, as the code has it. A taken BEQ (operands equal) or BNE (operands unequal)
  sets the instruction pointer to \<open>P + zero_extend(imm) * 4\<close> modulo \<open>2 ^ 32\<close>, where \<open>P\<close>
  is the instruction pointer already advanced past the branch instruction and \<open>imm\<close> the
  16-bit immediate read as unsigned. This is \<open>P + sign_extend(imm) * 4\<close> whenever bit 15 of
  the immediate is clear.
\<close>

theorem branch_taken_zero_extended:
  assumes "GET_INSTR mips = Some (instr, mips')"
    and "ucast (GET_OP instr) = OP_BEQ \<and>
           regs mips ! unat (GET_RS instr) = regs mips ! unat (GET_RT instr) \<or>
         ucast (GET_OP instr) = OP_BNE \<and>
           regs mips ! unat (GET_RS instr) \<noteq> regs mips ! unat (GET_RT instr)"
  shows "(let imm = (ucast (GET_IMMED instr) :: 16 word)
          in execInstruction SYS_EXIT mips =
               Some (EXEC_SUCCESS, mips'\<lparr>ip := ip mips' + zero_extend imm 16 * 4\<rparr>, []) \<and>
             ip mips' = ip mips + 4 \<and>
             unat (zero_extend imm 16) = unat imm \<and>
             (\<not> bit imm 15 \<longrightarrow> zero_extend imm 16 = sign_extend imm 16))"
proof -
  have st: "mips' = mips\<lparr>ip := ip mips + 4\<rparr>"
    using assms(1) by (rule GET_INSTR_state)
  then have R: "regs mips' = regs mips" and P: "ip mips' = ip mips + 4" by simp_all
  have off: "push_bit 2 (GET_IMMED instr) = zero_extend (ucast (GET_IMMED instr)) 16 * 4"
    using GET_IMMED_zero_extend [of instr] by (simp add: push_bit_eq_mult)
  have "dispatch SYS_EXIT instr mips' =
          Some (EXEC_SUCCESS, mips'\<lparr>ip := ip mips' + push_bit 2 (GET_IMMED instr)\<rparr>, [])"
    using assms(2) by (auto simp: dispatch_BEQ dispatch_BNE R)
  then have "execInstruction SYS_EXIT mips =
          Some (EXEC_SUCCESS,
                mips'\<lparr>ip := ip mips' + zero_extend (ucast (GET_IMMED instr)) 16 * 4\<rparr>, [])"
    by (simp only: exec_after_fetch [OF assms(1)] off)
  then show ?thesis
    using P by (simp add: Let_def unat_zero_extend_16 sign_extend_nonneg)
qed

theorem branch_taken_zero_extended_witness:
  "GET_INSTR (example_state [0x14, 0x22, 0x00, 0x03] 5 6) =
     Some (0x14220003, example_state [0x14, 0x22, 0x00, 0x03] 5 6\<lparr>ip := 4\<rparr>) \<and>
   ucast (GET_OP 0x14220003) = OP_BNE \<and>
   regs (example_state [0x14, 0x22, 0x00, 0x03] 5 6) ! unat (GET_RS 0x14220003) \<noteq>
     regs (example_state [0x14, 0x22, 0x00, 0x03] 5 6) ! unat (GET_RT 0x14220003) \<and>
   execInstruction 10 (example_state [0x14, 0x22, 0x00, 0x03] 5 6) =
     Some (EXEC_SUCCESS, example_state [0x14, 0x22, 0x00, 0x03] 5 6\<lparr>ip := 16\<rparr>, []) \<and>
   execInstruction 10 (example_state [0x10, 0x22, 0xFF, 0xFE] 5 5) =
     Some (EXEC_SUCCESS, example_state [0x10, 0x22, 0xFF, 0xFE] 5 5\<lparr>ip := 0x3FFFC\<rparr>, [])"
proof -
  have f: "GET_INSTR (example_state [0x14, 0x22, 0x00, 0x03] 5 6) =
     Some (0x14220003, example_state [0x14, 0x22, 0x00, 0x03] 5 6\<lparr>ip := 4\<rparr>)"
    by (simp add: GET_INSTR_def example_state_def)
  have g: "GET_INSTR (example_state [0x10, 0x22, 0xFF, 0xFE] 5 5) =
     Some (0x1022FFFE, example_state [0x10, 0x22, 0xFF, 0xFE] 5 5\<lparr>ip := 4\<rparr>)"
    by (simp add: GET_INSTR_def example_state_def)
  have dec: "ucast (GET_OP 0x14220003) = OP_BNE" "ucast (GET_OP 0x1022FFFE) = OP_BEQ"
    "unat (GET_RS 0x14220003) = 1" "unat (GET_RT 0x14220003) = 2"
    "unat (GET_RS 0x1022FFFE) = 1" "unat (GET_RT 0x1022FFFE) = 2"
    "GET_IMMED 0x14220003 = 3" "GET_IMMED 0x1022FFFE = 0xFFFE"
    by (simp_all add: GET_OP_def GET_RS_def GET_RT_def GET_IMMED_def OP_BEQ_def OP_BNE_def)
  have ne: "regs (example_state [0x14, 0x22, 0x00, 0x03] 5 6) ! unat (GET_RS 0x14220003) \<noteq>
     regs (example_state [0x14, 0x22, 0x00, 0x03] 5 6) ! unat (GET_RT 0x14220003)"
    by (simp add: dec example_state_def)
  have eq: "regs (example_state [0x10, 0x22, 0xFF, 0xFE] 5 5) ! unat (GET_RS 0x1022FFFE) =
     regs (example_state [0x10, 0x22, 0xFF, 0xFE] 5 5) ! unat (GET_RT 0x1022FFFE)"
    by (simp add: dec example_state_def)
  have a: "execInstruction 10 (example_state [0x14, 0x22, 0x00, 0x03] 5 6) =
     Some (EXEC_SUCCESS, example_state [0x14, 0x22, 0x00, 0x03] 5 6\<lparr>ip := 16\<rparr>, [])"
    using branch_taken_zero_extended [OF f, of 10] dec(1) ne
    by (simp add: dec zero_extend_16 example_state_def)
  have b: "execInstruction 10 (example_state [0x10, 0x22, 0xFF, 0xFE] 5 5) =
     Some (EXEC_SUCCESS, example_state [0x10, 0x22, 0xFF, 0xFE] 5 5\<lparr>ip := 0x3FFFC\<rparr>, [])"
    using branch_taken_zero_extended [OF g, of 10] dec(2) eq
    by (simp add: dec zero_extend_16 example_state_def)
  show ?thesis using f dec(1) ne a b by simp
qed

section \<open>Division: DIV and DIVU\<close>








section \<open>Multiplication: MULT and MULTU\<close>

text \<open>
  Claim C4 asks for \<open>hi\<close> and \<open>lo\<close> to be the upper and lower halves of the full 64-bit
  product. The code multiplies the two \<^verbatim>\<open>int32_t\<close> registers in 32 bits and widens
  only the result to \<^verbatim>\<open>int64_t\<close>. With \<^verbatim>\<open>0x10000\<close> in both operand registers the
  full product is \<open>2 ^ 32\<close>, whose upper half is 1; MULT and MULTU both leave \<open>hi = 0\<close> and
  \<open>lo = 0\<close>.
\<close>

theorem mult_product_truncated_to_32_bits:
  "execInstruction 10 (example_state [0x00, 0x22, 0x00, 0x18] 0x10000 0x10000) =
     Some (EXEC_SUCCESS,
           example_state [0x00, 0x22, 0x00, 0x18] 0x10000 0x10000\<lparr>ip := 4, hi := 0, lo := 0\<rparr>, []) \<and>
   execInstruction 10 (example_state [0x00, 0x22, 0x00, 0x19] 0x10000 0x10000) =
     Some (EXEC_SUCCESS,
           example_state [0x00, 0x22, 0x00, 0x19] 0x10000 0x10000\<lparr>ip := 4, hi := 0, lo := 0\<rparr>, []) \<and>
   ucast (GET_OP 0x00220018) = OP_SPECIAL \<and> ucast (GET_FUNC 0x00220018) = SPE_MULT \<and>
   ucast (GET_OP 0x00220019) = OP_SPECIAL \<and> ucast (GET_FUNC 0x00220019) = SPE_MULTU \<and>
   drop_bit 32 (0x10000 * 0x10000 :: 64 word) = 1"
proof -
  have f: "GET_INSTR (example_state [0x00, 0x22, 0x00, 0x18] a b) =
     Some (0x00220018, example_state [0x00, 0x22, 0x00, 0x18] a b\<lparr>ip := 4\<rparr>)" for a b
    by (simp add: GET_INSTR_def example_state_def)
  have g: "GET_INSTR (example_state [0x00, 0x22, 0x00, 0x19] a b) =
     Some (0x00220019, example_state [0x00, 0x22, 0x00, 0x19] a b\<lparr>ip := 4\<rparr>)" for a b
    by (simp add: GET_INSTR_def example_state_def)
  have dec: "ucast (GET_OP 0x00220018) = OP_SPECIAL" "ucast (GET_FUNC 0x00220018) = SPE_MULT"
    "ucast (GET_OP 0x00220019) = OP_SPECIAL" "ucast (GET_FUNC 0x00220019) = SPE_MULTU"
    "unat (GET_RS 0x00220018) = 1" "unat (GET_RT 0x00220018) = 2"
    "unat (GET_RS 0x00220019) = 1" "unat (GET_RT 0x00220019) = 2"
    by (simp_all add: GET_OP_def GET_FUNC_def GET_RS_def GET_RT_def OP_SPECIAL_def SPE_MULT_def
        SPE_MULTU_def)
  have m: "dispatch 10 0x00220018 (example_state [0x00, 0x22, 0x00, 0x18] 0x10000 0x10000\<lparr>ip := 4\<rparr>) =
    Some (EXEC_SUCCESS,
           example_state [0x00, 0x22, 0x00, 0x18] 0x10000 0x10000\<lparr>ip := 4, hi := 0, lo := 0\<rparr>, [])"
    using dec by (simp add: dispatch_def exec_special_def funct_defs Let_def example_state_def)
  have mu: "dispatch 10 0x00220019 (example_state [0x00, 0x22, 0x00, 0x19] 0x10000 0x10000\<lparr>ip := 4\<rparr>) =
    Some (EXEC_SUCCESS,
           example_state [0x00, 0x22, 0x00, 0x19] 0x10000 0x10000\<lparr>ip := 4, hi := 0, lo := 0\<rparr>, [])"
    using dec by (simp add: dispatch_def exec_special_def funct_defs Let_def example_state_def)
  have p: "drop_bit 32 (0x10000 * 0x10000 :: 64 word) = 1"
    by (simp add: drop_bit_eq_div)
  show ?thesis
    using exec_after_fetch [OF f, of 10 "0x10000" "0x10000"]
      exec_after_fetch [OF g, of 10 "0x10000" "0x10000"] m mu dec(1-4) p
    by simp
qed

section \<open>Immediate logical operations: ANDI, ORI and XORI\<close>

text \<open>
  Claim C7 asks for the value of register \<open>rs\<close> to be combined with the zero-extended
  immediate. The code combines \<^verbatim>\<open>GET_RS(instr)\<close>, the 5-bit register number itself.
  With \<^verbatim>\<open>0xF0\<close> in register 1 and \<open>rs = 1\<close>, ANDI with \<^verbatim>\<open>0xFF\<close> stores 1 (not
  \<^verbatim>\<open>0xF0\<close>), ORI with \<^verbatim>\<open>0x0F\<close> stores \<^verbatim>\<open>0x0F\<close> (not \<^verbatim>\<open>0xFF\<close>) and XORI
  with \<^verbatim>\<open>0x0F\<close> stores \<^verbatim>\<open>0x0E\<close> (not \<^verbatim>\<open>0xFF\<close>).
\<close>

theorem immediate_logical_uses_rs_field:
  "execInstruction 10 (example_state [0x30, 0x22, 0x00, 0xFF] 0xF0 6) =
     Some (EXEC_SUCCESS,
           example_state [0x30, 0x22, 0x00, 0xFF] 0xF0 6
             \<lparr>ip := 4, regs := (replicate 32 0)[1 := 0xF0, 2 := 1]\<rparr>, []) \<and>
   execInstruction 10 (example_state [0x34, 0x22, 0x00, 0x0F] 0xF0 6) =
     Some (EXEC_SUCCESS,
           example_state [0x34, 0x22, 0x00, 0x0F] 0xF0 6
             \<lparr>ip := 4, regs := (replicate 32 0)[1 := 0xF0, 2 := 0x0F]\<rparr>, []) \<and>
   execInstruction 10 (example_state [0x38, 0x22, 0x00, 0x0F] 0xF0 6) =
     Some (EXEC_SUCCESS,
           example_state [0x38, 0x22, 0x00, 0x0F] 0xF0 6
             \<lparr>ip := 4, regs := (replicate 32 0)[1 := 0xF0, 2 := 0x0E]\<rparr>, []) \<and>
   ucast (GET_OP 0x302200FF) = OP_ANDI \<and> ucast (GET_OP 0x3422000F) = OP_ORI \<and>
   ucast (GET_OP 0x3822000F) = OP_XORI \<and>
   (0xF0 :: 32 word) AND zero_extend 0xFF 16 = 0xF0 \<and>
   (0xF0 :: 32 word) OR zero_extend 0x0F 16 = 0xFF \<and>
   (0xF0 :: 32 word) XOR zero_extend 0x0F 16 = 0xFF"
proof -
  have f: "GET_INSTR (example_state [0x30, 0x22, 0x00, 0xFF] 0xF0 6) =
     Some (0x302200FF, example_state [0x30, 0x22, 0x00, 0xFF] 0xF0 6\<lparr>ip := 4\<rparr>)"
    "GET_INSTR (example_state [0x34, 0x22, 0x00, 0x0F] 0xF0 6) =
     Some (0x3422000F, example_state [0x34, 0x22, 0x00, 0x0F] 0xF0 6\<lparr>ip := 4\<rparr>)"
    "GET_INSTR (example_state [0x38, 0x22, 0x00, 0x0F] 0xF0 6) =
     Some (0x3822000F, example_state [0x38, 0x22, 0x00, 0x0F] 0xF0 6\<lparr>ip := 4\<rparr>)"
    by (simp_all add: GET_INSTR_def example_state_def)
  have dec: "ucast (GET_OP 0x302200FF) = OP_ANDI" "ucast (GET_OP 0x3422000F) = OP_ORI"
    "ucast (GET_OP 0x3822000F) = OP_XORI"
    "GET_RS 0x302200FF = 1" "unat (GET_RT 0x302200FF) = 2" "GET_IMMED 0x302200FF = 0xFF"
    "GET_RS 0x3422000F = 1" "unat (GET_RT 0x3422000F) = 2" "GET_IMMED 0x3422000F = 0x0F"
    "GET_RS 0x3822000F = 1" "unat (GET_RT 0x3822000F) = 2" "GET_IMMED 0x3822000F = 0x0F"
    by (simp_all add: GET_OP_def GET_RS_def GET_RT_def GET_IMMED_def OP_ANDI_def OP_ORI_def
        OP_XORI_def)
  have a: "dispatch 10 0x302200FF (example_state [0x30, 0x22, 0x00, 0xFF] 0xF0 6\<lparr>ip := 4\<rparr>) =
     Some (EXEC_SUCCESS,
           example_state [0x30, 0x22, 0x00, 0xFF] 0xF0 6
             \<lparr>ip := 4, regs := (replicate 32 0)[1 := 0xF0, 2 := 1]\<rparr>, [])"
    using dec by (simp add: dispatch_def opcode_defs Let_def zero_extend_16 example_state_def)
  have b: "dispatch 10 0x3422000F (example_state [0x34, 0x22, 0x00, 0x0F] 0xF0 6\<lparr>ip := 4\<rparr>) =
     Some (EXEC_SUCCESS,
           example_state [0x34, 0x22, 0x00, 0x0F] 0xF0 6
             \<lparr>ip := 4, regs := (replicate 32 0)[1 := 0xF0, 2 := 0x0F]\<rparr>, [])"
    using dec by (simp add: dispatch_def opcode_defs Let_def zero_extend_16 example_state_def)
  have c: "dispatch 10 0x3822000F (example_state [0x38, 0x22, 0x00, 0x0F] 0xF0 6\<lparr>ip := 4\<rparr>) =
     Some (EXEC_SUCCESS,
           example_state [0x38, 0x22, 0x00, 0x0F] 0xF0 6
             \<lparr>ip := 4, regs := (replicate 32 0)[1 := 0xF0, 2 := 0x0E]\<rparr>, [])"
    using dec by (simp add: dispatch_def opcode_defs Let_def zero_extend_16 example_state_def)
  have v: "(0xF0 :: 32 word) AND zero_extend 0xFF 16 = 0xF0"
    "(0xF0 :: 32 word) OR zero_extend 0x0F 16 = 0xFF"
    "(0xF0 :: 32 word) XOR zero_extend 0x0F 16 = 0xFF"
    by (simp_all add: zero_extend_16)
  show ?thesis
    using exec_after_fetch [OF f(1), of 10] exec_after_fetch [OF f(2), of 10]
      exec_after_fetch [OF f(3), of 10] a b c dec(1-3) v
    by simp
qed

section \<open>runSimulator without a program\<close>

text \<open>
  Claim C8. Running a state whose program pointer is null returns at once with
  \<^verbatim>\<open>EXEC_FAILURE\<close> and the invalid-program message on \<^verbatim>\<open>stderr\<close>: the loop is not
  entered, no instruction is fetched, and the state returned is the state given
  (registers, \<open>hi\<close>, \<open>lo\<close>, instruction pointer and halt flag included).
\<close>

theorem run_without_program_fails:
  assumes "program mips = None"
  shows "runSimulator SYS_EXIT mips = Some (EXEC_FAILURE, mips, [Invalid_program])"
  using assms by (simp add: runSimulator_def)

theorem run_without_program_fails_witness:
  "program (example_state [0x00, 0x00, 0x00, 0x0C] 5 6\<lparr>program := None\<rparr>) = None \<and>
   runSimulator 10 (example_state [0x00, 0x00, 0x00, 0x0C] 5 6\<lparr>program := None\<rparr>) =
     Some (EXEC_FAILURE,
           \<lparr>regs = (replicate 32 0)[1 := 5, 2 := 6], hi = 7, lo = 9, ip = 0, stop = False,
            program = None\<rparr>, [Invalid_program])"
proof -
  have p: "program (example_state [0x00, 0x00, 0x00, 0x0C] 5 6\<lparr>program := None\<rparr>) = None"
    by simp
  show ?thesis
    using run_without_program_fails [OF p, of 10] p by (simp add: example_state_def)
qed

section \<open>initSimulator\<close>

lemma reset_regs_from:
  "i \<le> REG_COUNT \<Longrightarrow> length rs = REG_COUNT \<Longrightarrow>
     reset_regs i rs = take i rs @ replicate (REG_COUNT - i) 0"
proof (induction i rs rule: reset_regs.induct)
  case (1 i rs)
  show ?case
  proof (cases "i < REG_COUNT")
    case True
    then have "reset_regs i rs = reset_regs (Suc i) (rs[i := 0])"
      by (subst reset_regs.simps) simp
    also have "\<dots> = take (Suc i) (rs[i := 0]) @ replicate (REG_COUNT - Suc i) 0"
      using True "1.prems" by (intro "1.IH") simp_all
    also have "take (Suc i) (rs[i := 0]) = take i rs @ [0]"
      using True "1.prems" by (simp add: take_Suc_conv_app_nth)
    also have "(take i rs @ [0]) @ replicate (REG_COUNT - Suc i) 0 =
                 take i rs @ replicate (REG_COUNT - i) 0"
      using True by (simp add: Suc_diff_Suc flip: replicate_Suc)
    finally show ?thesis .
  next
    case False
    with "1.prems" have "i = REG_COUNT" by simp
    with "1.prems" show ?thesis
      by (subst reset_regs.simps) simp
  qed
qed

lemma reset_regs_all: "length rs = REG_COUNT \<Longrightarrow> reset_regs 0 rs = replicate REG_COUNT 0"
  using reset_regs_from [of 0 rs] by simp

text \<open>
  Claim C9. After \<open>initSimulator\<close> with any program buffer, on a register file of 32
  entries, every register holds 0 except register 29 (the stack pointer), which holds the
  stack size; \<open>hi\<close>, \<open>lo\<close> and the instruction pointer are 0, the halt flag is false and
  the program pointer is the buffer given.
\<close>

theorem init_state:
  assumes "length (regs mips) = REG_COUNT"
  shows "initSimulator STACK_SIZE mips prog =
           \<lparr>regs = (replicate 32 0)[29 := STACK_SIZE], hi = 0, lo = 0, ip = 0, stop = False,
            program = prog\<rparr> \<and>
         length (regs (initSimulator STACK_SIZE mips prog)) = 32 \<and>
         (\<forall>i < 32. regs (initSimulator STACK_SIZE mips prog) ! i =
                     (if i = 29 then STACK_SIZE else 0))"
proof -
  have "initSimulator STACK_SIZE mips prog =
           \<lparr>regs = (replicate 32 0)[29 := STACK_SIZE], hi = 0, lo = 0, ip = 0, stop = False,
            program = prog\<rparr>"
    using reset_regs_all [OF assms]
    by (simp add: initSimulator_def resetSimulator_def reg_sp_def REG_COUNT_def Let_def)
  then show ?thesis
    by (simp add: nth_list_update)
qed

theorem init_state_witness:
  "length (regs (example_state [0x00, 0x00, 0x00, 0x0C] 5 6)) = REG_COUNT \<and>
   initSimulator 1024 (example_state [0x00, 0x00, 0x00, 0x0C] 5 6) (Some [0x00, 0x20, 0x00, 0x13]) =
     \<lparr>regs = (replicate 32 0)[29 := 1024], hi = 0, lo = 0, ip = 0, stop = False,
      program = Some [0x00, 0x20, 0x00, 0x13]\<rparr> \<and>
   regs (initSimulator 1024 (example_state [0x00, 0x00, 0x00, 0x0C] 5 6)
           (Some [0x00, 0x20, 0x00, 0x13])) ! 29 = 1024 \<and>
   regs (initSimulator 1024 (example_state [0x00, 0x00, 0x00, 0x0C] 5 6)
           (Some [0x00, 0x20, 0x00, 0x13])) ! 1 = 0"
proof -
  have l: "length (regs (example_state [0x00, 0x00, 0x00, 0x0C] 5 6)) = REG_COUNT"
    by (simp add: example_state_def REG_COUNT_def)
  show ?thesis
    using init_state [OF l, of 1024 "Some [0x00, 0x20, 0x00, 0x13]"] l by simp
qed

section \<open>Comparisons: SLT, SLTU and SLTIU\<close>

lemma dispatch_SLT:
  assumes "ucast (GET_OP instr) = OP_SPECIAL"
    and "ucast (GET_FUNC instr) = SPE_SLT \<or> ucast (GET_FUNC instr) = SPE_SLTU"
  shows "dispatch SYS_EXIT instr mips =
           Some (EXEC_SUCCESS,
            mips\<lparr>regs := (regs mips)[unat (GET_RD instr) :=
                     (if sint (regs mips ! unat (GET_RS instr)) < sint (regs mips ! unat (GET_RT instr))
                      then 1 else 0)]\<rparr>, [])"
  using assms(2)
proof
  assume "ucast (GET_FUNC instr) = SPE_SLT"
  with assms(1) show ?thesis
    by (simp add: dispatch_def exec_special_def funct_defs Let_def word_sless_alt)
next
  assume "ucast (GET_FUNC instr) = SPE_SLTU"
  with assms(1) show ?thesis
    by (simp add: dispatch_def exec_special_def funct_defs Let_def word_sless_alt)
qed

lemma dispatch_SLTIU:
  assumes "ucast (GET_OP instr) = OP_SLTIU"
  shows "dispatch SYS_EXIT instr mips =
           Some (EXEC_SUCCESS,
            mips\<lparr>regs := (regs mips)[unat (GET_RT instr) :=
                     (if unat (regs mips ! unat (GET_RS instr)) <
                         unat (ucast (GET_IMMED instr) :: 16 word)
                      then 1 else 0)]\<rparr>, [])"
  using assms
  by (simp add: dispatch_def opcode_defs Let_def word_less_nat_alt unat_zero_extend_16)

lemma slt_sltiu_step:
  assumes "GET_INSTR mips = Some (instr, mips')"
  shows "(ucast (GET_OP instr) = OP_SPECIAL \<and>
          (ucast (GET_FUNC instr) = SPE_SLT \<or> ucast (GET_FUNC instr) = SPE_SLTU) \<longrightarrow>
            execInstruction SYS_EXIT mips =
              Some (EXEC_SUCCESS,
                    mips'\<lparr>regs := (regs mips)[unat (GET_RD instr) :=
                       (if sint (regs mips ! unat (GET_RS instr)) <
                           sint (regs mips ! unat (GET_RT instr))
                        then 1 else 0)]\<rparr>, [])) \<and>
         (ucast (GET_OP instr) = OP_SLTIU \<longrightarrow>
            execInstruction SYS_EXIT mips =
              Some (EXEC_SUCCESS,
                    mips'\<lparr>regs := (regs mips)[unat (GET_RT instr) :=
                       (if unat (regs mips ! unat (GET_RS instr)) <
                           unat (ucast (GET_IMMED instr) :: 16 word)
                        then 1 else 0)]\<rparr>, []))"
proof -
  have "mips' = mips\<lparr>ip := ip mips + 4\<rparr>"
    using assms by (rule GET_INSTR_state)
  then have R: "regs mips' = regs mips" by simp
  show ?thesis
    unfolding exec_after_fetch [OF assms]
    by (auto simp: dispatch_SLT dispatch_SLTIU R)
qed

text \<open>
  Claim C10. SLT and SLTU run the same code: both compare the values of registers \<open>rs\<close>
  and \<open>rt\<close> as signed 32-bit integers and store 1 or 0 in \<open>rd\<close>. SLTIU compares the value
  of register \<open>rs\<close> read as unsigned with the zero-extended immediate and stores 1 or 0 in
  \<open>rt\<close>. So the two disagree on the same comparison: with -1 in register \<open>rs\<close>, SLTU
  against a register holding 0 stores 1, and SLTIU against the immediate 0 stores 0.
\<close>

theorem slt_sltu_signed_sltiu_unsigned:
  assumes "GET_INSTR mips = Some (instr, mips')"
  shows "(ucast (GET_OP instr) = OP_SPECIAL \<and>
          (ucast (GET_FUNC instr) = SPE_SLT \<or> ucast (GET_FUNC instr) = SPE_SLTU) \<longrightarrow>
            execInstruction SYS_EXIT mips =
              Some (EXEC_SUCCESS,
                    mips'\<lparr>regs := (regs mips)[unat (GET_RD instr) :=
                       (if sint (regs mips ! unat (GET_RS instr)) <
                           sint (regs mips ! unat (GET_RT instr))
                        then 1 else 0)]\<rparr>, [])) \<and>
         (ucast (GET_OP instr) = OP_SLTIU \<longrightarrow>
            execInstruction SYS_EXIT mips =
              Some (EXEC_SUCCESS,
                    mips'\<lparr>regs := (regs mips)[unat (GET_RT instr) :=
                       (if unat (regs mips ! unat (GET_RS instr)) <
                           unat (ucast (GET_IMMED instr) :: 16 word)
                        then 1 else 0)]\<rparr>, [])) \<and>
         execInstruction 10 (example_state [0x00, 0x22, 0x18, 0x2B] (- 1) 0) =
           Some (EXEC_SUCCESS,
                 example_state [0x00, 0x22, 0x18, 0x2B] (- 1) 0
                   \<lparr>ip := 4, regs := (replicate 32 0)[1 := - 1, 2 := 0, 3 := 1]\<rparr>, []) \<and>
         execInstruction 10 (example_state [0x2C, 0x22, 0x00, 0x00] (- 1) 0) =
           Some (EXEC_SUCCESS,
                 example_state [0x2C, 0x22, 0x00, 0x00] (- 1) 0
                   \<lparr>ip := 4, regs := (replicate 32 0)[1 := - 1, 2 := 0]\<rparr>, []) \<and>
         ucast (GET_OP 0x0022182B) = OP_SPECIAL \<and> ucast (GET_FUNC 0x0022182B) = SPE_SLTU \<and>
         ucast (GET_OP 0x2C220000) = OP_SLTIU"
proof -
  have f: "GET_INSTR (example_state [0x00, 0x22, 0x18, 0x2B] (- 1) 0) =
     Some (0x0022182B, example_state [0x00, 0x22, 0x18, 0x2B] (- 1) 0\<lparr>ip := 4\<rparr>)"
    by (simp add: GET_INSTR_def example_state_def)
  have g: "GET_INSTR (example_state [0x2C, 0x22, 0x00, 0x00] (- 1) 0) =
     Some (0x2C220000, example_state [0x2C, 0x22, 0x00, 0x00] (- 1) 0\<lparr>ip := 4\<rparr>)"
    by (simp add: GET_INSTR_def example_state_def)
  have dec: "ucast (GET_OP 0x0022182B) = OP_SPECIAL" "ucast (GET_FUNC 0x0022182B) = SPE_SLTU"
    "ucast (GET_OP 0x2C220000) = OP_SLTIU"
    "unat (GET_RS 0x0022182B) = 1" "unat (GET_RT 0x0022182B) = 2" "unat (GET_RD 0x0022182B) = 3"
    "unat (GET_RS 0x2C220000) = 1" "unat (GET_RT 0x2C220000) = 2"
    "(ucast (GET_IMMED 0x2C220000) :: 16 word) = 0"
    by (simp_all add: GET_OP_def GET_FUNC_def GET_RS_def GET_RT_def GET_RD_def GET_IMMED_def
        OP_SPECIAL_def SPE_SLTU_def OP_SLTIU_def)
  have a: "execInstruction 10 (example_state [0x00, 0x22, 0x18, 0x2B] (- 1) 0) =
           Some (EXEC_SUCCESS,
                 example_state [0x00, 0x22, 0x18, 0x2B] (- 1) 0
                   \<lparr>ip := 4, regs := (replicate 32 0)[1 := - 1, 2 := 0, 3 := 1]\<rparr>, [])"
    using slt_sltiu_step [OF f, of 10] dec by (simp add: example_state_def)
  have b: "execInstruction 10 (example_state [0x2C, 0x22, 0x00, 0x00] (- 1) 0) =
           Some (EXEC_SUCCESS,
                 example_state [0x2C, 0x22, 0x00, 0x00] (- 1) 0
                   \<lparr>ip := 4, regs := (replicate 32 0)[1 := - 1, 2 := 0]\<rparr>, [])"
    using slt_sltiu_step [OF g, of 10] dec by (simp add: example_state_def)
  show ?thesis
    using slt_sltiu_step [OF assms, of SYS_EXIT] a b dec(1-3) by blast
qed

theorem slt_sltu_signed_sltiu_unsigned_witness:
  "GET_INSTR (example_state [0x00, 0x22, 0x18, 0x2A] (- 2) 1) =
     Some (0x0022182A, example_state [0x00, 0x22, 0x18, 0x2A] (- 2) 1\<lparr>ip := 4\<rparr>) \<and>
   ucast (GET_OP 0x0022182A) = OP_SPECIAL \<and> ucast (GET_FUNC 0x0022182A) = SPE_SLT \<and>
   execInstruction 10 (example_state [0x00, 0x22, 0x18, 0x2A] (- 2) 1) =
     Some (EXEC_SUCCESS,
           example_state [0x00, 0x22, 0x18, 0x2A] (- 2) 1
             \<lparr>ip := 4, regs := (replicate 32 0)[1 := - 2, 2 := 1, 3 := 1]\<rparr>, []) \<and>
   GET_INSTR (example_state [0x2C, 0x22, 0x00, 0x01] (- 2) 6) =
     Some (0x2C220001, example_state [0x2C, 0x22, 0x00, 0x01] (- 2) 6\<lparr>ip := 4\<rparr>) \<and>
   ucast (GET_OP 0x2C220001) = OP_SLTIU \<and>
   execInstruction 10 (example_state [0x2C, 0x22, 0x00, 0x01] (- 2) 6) =
     Some (EXEC_SUCCESS,
           example_state [0x2C, 0x22, 0x00, 0x01] (- 2) 6
             \<lparr>ip := 4, regs := (replicate 32 0)[1 := - 2, 2 := 0]\<rparr>, [])"
proof -
  have f: "GET_INSTR (example_state [0x00, 0x22, 0x18, 0x2A] (- 2) 1) =
     Some (0x0022182A, example_state [0x00, 0x22, 0x18, 0x2A] (- 2) 1\<lparr>ip := 4\<rparr>)"
    by (simp add: GET_INSTR_def example_state_def)
  have g: "GET_INSTR (example_state [0x2C, 0x22, 0x00, 0x01] (- 2) 6) =
     Some (0x2C220001, example_state [0x2C, 0x22, 0x00, 0x01] (- 2) 6\<lparr>ip := 4\<rparr>)"
    by (simp add: GET_INSTR_def example_state_def)
  have dec: "ucast (GET_OP 0x0022182A) = OP_SPECIAL" "ucast (GET_FUNC 0x0022182A) = SPE_SLT"
    "ucast (GET_OP 0x2C220001) = OP_SLTIU"
    "unat (GET_RS 0x0022182A) = 1" "unat (GET_RT 0x0022182A) = 2" "unat (GET_RD 0x0022182A) = 3"
    "unat (GET_RS 0x2C220001) = 1" "unat (GET_RT 0x2C220001) = 2"
    "(ucast (GET_IMMED 0x2C220001) :: 16 word) = 1"
    by (simp_all add: GET_OP_def GET_FUNC_def GET_RS_def GET_RT_def GET_RD_def GET_IMMED_def
        OP_SPECIAL_def SPE_SLT_def OP_SLTIU_def)
  have a: "execInstruction 10 (example_state [0x00, 0x22, 0x18, 0x2A] (- 2) 1) =
     Some (EXEC_SUCCESS,
           example_state [0x00, 0x22, 0x18, 0x2A] (- 2) 1
             \<lparr>ip := 4, regs := (replicate 32 0)[1 := - 2, 2 := 1, 3 := 1]\<rparr>, [])"
    using slt_sltu_signed_sltiu_unsigned [OF f, of 10] dec
    by (simp add: example_state_def)
  have b: "execInstruction 10 (example_state [0x2C, 0x22, 0x00, 0x01] (- 2) 6) =
     Some (EXEC_SUCCESS,
           example_state [0x2C, 0x22, 0x00, 0x01] (- 2) 6
             \<lparr>ip := 4, regs := (replicate 32 0)[1 := - 2, 2 := 0]\<rparr>, [])"
    using slt_sltu_signed_sltiu_unsigned [OF g, of 10] dec
    by (simp add: example_state_def)
  show ?thesis using f g dec(1-3) a b by simp
qed

end
